theory Spec2Isabelle
  imports Complex_Main
begin

section \<open>Python values and exceptions\<close>

text \<open>
  The application in \<^verbatim>\<open>app.py\<close> receives the prediction as a Python dictionary
  whose values are dynamically typed.  The values that the code inspects are modelled by
  \<open>pyval\<close>.  A Python \<^verbatim>\<open>float\<close> is modelled by the real number it denotes: the
  special values \<^verbatim>\<open>nan\<close>, \<^verbatim>\<open>inf\<close> and \<^verbatim>\<open>-0.0\<close> and the binary rounding of float
  arithmetic are outside the model.
\<close>

datatype pyval =
    PyNone
  | PyInt int
  | PyFloat real
  | PyStr string
  | PyList "pyval list"

text \<open>
  Exceptions are values.  \<open>KeyError\<close> carries the missing key, the other constructors the
  message that \<^verbatim>\<open>str(e)\<close> returns.  \<open>Exception\<close> stands for any other subclass of
  Python's \<^verbatim>\<open>Exception\<close>, such as the \<^verbatim>\<open>NameError\<close> raised when the import of
  \<^verbatim>\<open>ml_models\<close> at the top of the file has failed.
\<close>

datatype py_exn =
    KeyError string
  | TypeError string
  | ValueError string
  | Exception string

fun str_exn :: "py_exn \<Rightarrow> string" where
  "str_exn (KeyError k) = [CHR 0x27] @ k @ [CHR 0x27]"
| "str_exn (TypeError m) = m"
| "str_exn (ValueError m) = m"
| "str_exn (Exception m) = m"

fun type_name :: "pyval \<Rightarrow> string" where
  "type_name PyNone = ''NoneType''"
| "type_name (PyInt _) = ''int''"
| "type_name (PyFloat _) = ''float''"
| "type_name (PyStr _) = ''str''"
| "type_name (PyList _) = ''list''"

subsection \<open>Decimal text of integers\<close>

definition digit_char :: "nat \<Rightarrow> char" where
  "digit_char d = ''0123456789'' ! (d mod 10)"

function str_nat :: "nat \<Rightarrow> string" where
  "str_nat n = (if n < 10 then [digit_char n] else str_nat (n div 10) @ [digit_char (n mod 10)])"
  by pat_completeness auto
termination
  by (relation "measure id") auto

declare str_nat.simps [simp del]

definition str_int :: "int \<Rightarrow> string" where
  "str_int i = (if i < 0 then ''-'' @ str_nat (nat (- i)) else str_nat (nat i))"

subsection \<open>The comparison \<^verbatim>\<open>v >= t\<close> against a float literal\<close>

definition py_ge :: "pyval \<Rightarrow> real \<Rightarrow> py_exn + bool" where
  "py_ge v t =
     (case v of
        PyInt n \<Rightarrow> Inr (t \<le> real_of_int n)
      | PyFloat x \<Rightarrow> Inr (t \<le> x)
      | _ \<Rightarrow> Inl (TypeError ([CHR 0x27] @ ''>='' @ [CHR 0x27]
                 @ '' not supported between instances of '' @ [CHR 0x27] @ type_name v
                 @ [CHR 0x27] @ '' and '' @ [CHR 0x27] @ ''float'' @ [CHR 0x27])))"

subsection \<open>The format specification \<^verbatim>\<open>.1%\<close>\<close>

text \<open>
  Python multiplies the number by 100, rounds to one digit after the point (ties to the
  even neighbour), and appends a percent sign; the sign of a negative number is kept.
\<close>

definition round_half_even :: "real \<Rightarrow> int" where
  "round_half_even x =
     (let f = \<lfloor>x\<rfloor>; d = x - of_int f
      in if d < 1 / 2 then f
         else if 1 / 2 < d then f + 1
         else if even f then f else f + 1)"

definition format_percent1 :: "real \<Rightarrow> string" where
  "format_percent1 x =
     (let k = nat (round_half_even (\<bar>x\<bar> * 100 * 10))
      in (if x < 0 then ''-'' else '''') @ str_nat (k div 10) @ ''.''
           @ [digit_char (k mod 10)] @ ''%'')"

definition py_format_percent1 :: "pyval \<Rightarrow> py_exn + string" where
  "py_format_percent1 v =
     (case v of
        PyInt n \<Rightarrow> Inr (format_percent1 (real_of_int n))
      | PyFloat x \<Rightarrow> Inr (format_percent1 x)
      | PyStr _ \<Rightarrow> Inl (ValueError (''Unknown format code '' @ [CHR 0x27] @ ''%'' @ [CHR 0x27]
                  @ '' for object of type '' @ [CHR 0x27] @ ''str'' @ [CHR 0x27]))
      | _ \<Rightarrow> Inl (TypeError (''unsupported format string passed to '' @ type_name v
                  @ ''.__format__'')))"

subsection \<open>Text of a value, dictionary access, iteration\<close>

text \<open>
  A replacement field without format specification, as in \<^verbatim>\<open>f"{prediction}"\<close>, inserts
  \<^verbatim>\<open>str(v)\<close>.  The text of a float and of a list is the work of Python's \<^verbatim>\<open>repr\<close>,
  which is taken as the parameter \<open>repr\<close>.
\<close>

definition py_str :: "(pyval \<Rightarrow> string) \<Rightarrow> pyval \<Rightarrow> string" where
  "py_str repr v =
     (case v of
        PyStr s \<Rightarrow> s
      | PyNone \<Rightarrow> ''None''
      | PyInt n \<Rightarrow> str_int n
      | _ \<Rightarrow> repr v)"

type_synonym pydict = "string \<rightharpoonup> pyval"

definition py_getitem :: "pydict \<Rightarrow> string \<Rightarrow> py_exn + pyval" where
  "py_getitem d k = (case d k of None \<Rightarrow> Inl (KeyError k) | Some v \<Rightarrow> Inr v)"

definition py_get :: "pydict \<Rightarrow> string \<Rightarrow> pyval \<Rightarrow> pyval" where
  "py_get d k dflt = (case d k of None \<Rightarrow> dflt | Some v \<Rightarrow> v)"

definition py_iter :: "pyval \<Rightarrow> py_exn + pyval list" where
  "py_iter v =
     (case v of
        PyList vs \<Rightarrow> Inr vs
      | PyStr s \<Rightarrow> Inr (map (\<lambda>c. PyStr [c]) s)
      | _ \<Rightarrow> Inl (TypeError ([CHR 0x27] @ type_name v @ [CHR 0x27]
                 @ '' object is not iterable'')))"

section \<open>The user interface as a trace of effects\<close>

text \<open>
  The patient dictionary built in \<^verbatim>\<open>render_diabetes_predictor\<close> (lines 107 to 117)
  has nine fixed keys, so it is a record.  In Streamlit a number input with integer bounds
  gives an \<^verbatim>\<open>int\<close> and one with float bounds a \<^verbatim>\<open>float\<close>.
\<close>

record patient_data =
  age :: int
  bmi :: real
  glucose_level :: int
  blood_pressure :: int
  insulin_level :: int
  family_history :: int
  physical_activity :: int
  diet_score :: int
  stress_level :: int

text \<open>
  Every call of a Streamlit display function and every call into \<^verbatim>\<open>ml_models\<close> is an
  entry of the trace, in program order.  Input widgets are not entries: their values are
  read from the records \<open>predictor_widgets\<close>, \<open>analyzer_widgets\<close> and
  \<open>sidebar_widgets\<close>.
\<close>

datatype effect =
    St_header string
  | St_subheader string
  | St_markdown string
  | St_write string
  | St_error string
  | St_info string
  | St_success string
  | St_spinner string
  | St_metric string string
  | St_json patient_data
  | Call_predict_diabetes patient_data
  | Call_create_sample_patient_data

record predictor_widgets =
  age_input :: int
  bmi_input :: real
  glucose_input :: int
  bp_input :: int
  insulin_input :: int
  family_history_select :: string
  activity_slider :: int
  diet_slider :: int
  stress_slider :: int
  predict_button :: bool

definition nl :: string where
  "nl = [CHR 0x0A]"

definition sp :: "nat \<Rightarrow> string" where
  "sp n = replicate n (CHR '' '')"

section \<open>Diabetes prediction page\<close>

text \<open>The dictionary \<^verbatim>\<open>patient_data\<close> of lines 107 to 117.\<close>

definition prepare_patient_data :: "predictor_widgets \<Rightarrow> patient_data" where
  "prepare_patient_data w =
     \<lparr> age = age_input w,
       bmi = bmi_input w,
       glucose_level = glucose_input w,
       blood_pressure = bp_input w,
       insulin_level = insulin_input w,
       family_history = (if family_history_select w = ''Yes'' then 1 else 0),
       physical_activity = activity_slider w,
       diet_score = diet_slider w,
       stress_level = stress_slider w \<rparr>"

text \<open>
  The \<^verbatim>\<open>if\<close>/\<^verbatim>\<open>elif\<close>/\<^verbatim>\<open>else\<close> of lines 130 to 138: the pair of \<^verbatim>\<open>risk_class\<close> and
  \<^verbatim>\<open>risk_level\<close>.  The second comparison is evaluated only when the first is false.
\<close>

definition risk_level :: "pyval \<Rightarrow> py_exn + string \<times> string" where
  "risk_level risk_score =
     (case py_ge risk_score (7 / 10) of
        Inl e \<Rightarrow> Inl e
      | Inr True \<Rightarrow> Inr (''risk-high'', ''High Risk'')
      | Inr False \<Rightarrow>
          (case py_ge risk_score (4 / 10) of
             Inl e \<Rightarrow> Inl e
           | Inr True \<Rightarrow> Inr (''risk-medium'', ''Medium Risk'')
           | Inr False \<Rightarrow> Inr (''risk-low'', ''Low Risk'')))"

text \<open>The f-string of lines 141 to 149, with the five texts it inserts.\<close>

definition prediction_card :: "string \<Rightarrow> string \<Rightarrow> string \<Rightarrow> string \<Rightarrow> string \<Rightarrow> string" where
  \<open>prediction_card risk_class prediction risk_lvl confidence risk_score =
     nl @ sp 16 @ ''<div class="prediction-result '' @ risk_class @ ''">''
     @ nl @ sp 20 @ ''<h3>Prediction Result</h3>''
     @ nl @ sp 20 @ ''<p><strong>Diagnosis:</strong> '' @ prediction @ ''</p>''
     @ nl @ sp 20 @ ''<p><strong>Risk Level:</strong> '' @ risk_lvl @ ''</p>''
     @ nl @ sp 20 @ ''<p><strong>Confidence:</strong> '' @ confidence @ ''</p>''
     @ nl @ sp 20 @ ''<p><strong>Risk Score:</strong> '' @ risk_score @ ''</p>''
     @ nl @ sp 16 @ ''</div>''
     @ nl @ sp 16\<close>

text \<open>
  The loop \<^verbatim>\<open>for i, rec in enumerate(recommendations, 1): st.write(f"{i}. {rec}")\<close> of lines
  154 and 155, over the items that the iteration yields.
\<close>

fun write_recommendations :: "(pyval \<Rightarrow> string) \<Rightarrow> int \<Rightarrow> pyval list \<Rightarrow> effect list" where
  "write_recommendations repr i [] = []"
| "write_recommendations repr i (rec # recs) =
     St_write (str_int i @ ''. '' @ py_str repr rec) # write_recommendations repr (i + 1) recs"

definition recommendations_heading :: string where
  "recommendations_heading =
     [CHR 0xF0, CHR 0x9F, CHR 0x93, CHR 0x8B] @ '' Personalized Recommendations''"

text \<open>
  The body of the \<^verbatim>\<open>try\<close> statement, lines 122 to 155: the effects it performs in
  order, and the exception that ended it, if any.  The three subscripts, the comparisons
  and the two \<^verbatim>\<open>.1%\<close> fields are evaluated before \<^verbatim>\<open>st.markdown\<close> is called;
  \<^verbatim>\<open>result.get\<close> and \<^verbatim>\<open>enumerate\<close> are evaluated after \<^verbatim>\<open>st.subheader\<close>.
\<close>

definition predict_and_display ::
  "(pyval \<Rightarrow> string) \<Rightarrow> (patient_data \<Rightarrow> py_exn + pydict) \<Rightarrow> patient_data
     \<Rightarrow> effect list \<times> py_exn option" where
  "predict_and_display repr predict_diabetes pd =
     (let called = [Call_predict_diabetes pd] in
      case predict_diabetes pd of
        Inl e \<Rightarrow> (called, Some e)
      | Inr result \<Rightarrow>
     (case py_getitem result ''prediction'' of
        Inl e \<Rightarrow> (called, Some e)
      | Inr prediction \<Rightarrow>
     (case py_getitem result ''confidence'' of
        Inl e \<Rightarrow> (called, Some e)
      | Inr confidence \<Rightarrow>
     (case py_getitem result ''risk_score'' of
        Inl e \<Rightarrow> (called, Some e)
      | Inr risk_score \<Rightarrow>
     (case risk_level risk_score of
        Inl e \<Rightarrow> (called, Some e)
      | Inr (risk_class, risk_lvl) \<Rightarrow>
     (case py_format_percent1 confidence of
        Inl e \<Rightarrow> (called, Some e)
      | Inr confidence_text \<Rightarrow>
     (case py_format_percent1 risk_score of
        Inl e \<Rightarrow> (called, Some e)
      | Inr risk_score_text \<Rightarrow>
     (let shown = called @
            [St_markdown (prediction_card risk_class (py_str repr prediction) risk_lvl
                            confidence_text risk_score_text),
             St_subheader recommendations_heading];
          recommendations = py_get result ''recommendations'' (PyList [])
      in case py_iter recommendations of
           Inl e \<Rightarrow> (shown, Some e)
         | Inr recs \<Rightarrow> (shown @ write_recommendations repr 1 recs, None)))))))))"

definition install_hint :: string where
  "install_hint =
     ''Make sure all dependencies are installed: pip install -r requirements.txt''"

text \<open>
  The statements under \<^verbatim>\<open>if st.button("Predict Diabetes Risk", ...)\<close>, lines 120 to 159:
  the spinner, the \<^verbatim>\<open>try\<close> body and the handler \<^verbatim>\<open>except Exception as e\<close>.
\<close>

definition predict_clicked ::
  "(pyval \<Rightarrow> string) \<Rightarrow> (patient_data \<Rightarrow> py_exn + pydict) \<Rightarrow> patient_data \<Rightarrow> effect list" where
  "predict_clicked repr predict_diabetes pd =
     St_spinner ''Analyzing patient data...'' #
     (case predict_and_display repr predict_diabetes pd of
        (out, None) \<Rightarrow> out
      | (out, Some e) \<Rightarrow>
          out @ [St_error (''Error making prediction: '' @ str_exn e), St_info install_hint])"

text \<open>The whole function, lines 85 to 159.\<close>

definition render_diabetes_predictor ::
  "(pyval \<Rightarrow> string) \<Rightarrow> (patient_data \<Rightarrow> py_exn + pydict) \<Rightarrow> predictor_widgets
     \<Rightarrow> effect list" where
  "render_diabetes_predictor repr predict_diabetes w =
     [St_header ([CHR 0xF0, CHR 0x9F, CHR 0xA9, CHR 0xBA] @ '' Diabetes Risk Prediction''),
      St_subheader ''Patient Information'',
      St_subheader ''Lifestyle Factors'']
     @ (let patient = prepare_patient_data w
        in if predict_button w then predict_clicked repr predict_diabetes patient else [])"

section \<open>Document analysis page\<close>

text \<open>
  \<^verbatim>\<open>render_document_analyzer\<close>, lines 161 to 187.  The file uploader gives
  \<^verbatim>\<open>None\<close> or an uploaded file; the code reads its \<^verbatim>\<open>name\<close> only.
\<close>

record uploaded_file =
  name :: string
  content :: string

record analyzer_widgets =
  file_uploader :: "uploaded_file option"
  analyze_button :: bool

definition analysis_summary :: string where
  \<open>analysis_summary =
     nl @ sp 16 @ ''<div class="feature-card">''
     @ nl @ sp 20 @ ''<h4>'' @ [CHR 0xF0, CHR 0x9F, CHR 0x93, CHR 0x8A] @ '' Analysis Summary</h4>''
     @ nl @ sp 20 @ ''<p><strong>Document Type:</strong> Medical Report</p>''
     @ nl @ sp 20 @ ''<p><strong>Key Findings:</strong> Normal glucose levels, slightly elevated blood pressure</p>''
     @ nl @ sp 20 @ ''<p><strong>Critical Alerts:</strong> None detected</p>''
     @ nl @ sp 20 @ ''<p><strong>Recommendations:</strong> Regular monitoring suggested</p>''
     @ nl @ sp 16 @ ''</div>''
     @ nl @ sp 16\<close>

definition render_document_analyzer :: "analyzer_widgets \<Rightarrow> effect list" where
  "render_document_analyzer w =
     [St_header ([CHR 0xF0, CHR 0x9F, CHR 0x93, CHR 0x84] @ '' Medical Document Analysis''),
      St_info ([CHR 0xF0, CHR 0x9F, CHR 0x93, CHR 0x9D]
        @ '' Note: Document analysis feature requires OpenAI API key. This is a placeholder interface.'')]
     @ (case file_uploader w of
          None \<Rightarrow> []
        | Some uploaded \<Rightarrow>
            St_success (''File '' @ [CHR 0x27] @ name uploaded @ [CHR 0x27]
                          @ '' uploaded successfully!'')
            # (if analyze_button w
               then [St_spinner ''Analyzing document...'', St_markdown analysis_summary]
               else []))"

section \<open>Sidebar\<close>

record sidebar_widgets =
  page_radio :: string
  sample_button :: bool

text \<open>
  \<^verbatim>\<open>render_sidebar\<close>, lines 189 to 215.  \<^verbatim>\<open>create_sample_patient_data\<close> takes no
  argument: its outcome is the parameter.  The \<^verbatim>\<open>except\<close> clause of line 212 names no
  exception class and binds no name.  The function returns the selected page.
\<close>

definition render_sidebar :: "(py_exn + patient_data) \<Rightarrow> sidebar_widgets \<Rightarrow> effect list \<times> string" where
  "render_sidebar create_sample_patient_data w =
     ([St_header ([CHR 0xF0, CHR 0x9F, CHR 0x8E, CHR 0x9B, CHR 0xEF, CHR 0xB8, CHR 0x8F]
                    @ '' Navigation''),
       St_markdown ''---'',
       St_header ([CHR 0xF0, CHR 0x9F, CHR 0x93, CHR 0x8A] @ '' Quick Stats''),
       St_metric ''Model Accuracy'' ''84%'',
       St_metric ''Features Used'' ''9'',
       St_metric ''Training Data'' ''1,000 records'',
       St_markdown ''---'']
      @ (if sample_button w
         then Call_create_sample_patient_data #
              (case create_sample_patient_data of
                 Inr sample_data \<Rightarrow> [St_json sample_data]
               | Inl e \<Rightarrow> [St_error ''Sample data not available''])
         else []),
      page_radio w)"

section \<open>Reading a trace\<close>

fun is_call :: "effect \<Rightarrow> bool" where
  "is_call (Call_predict_diabetes _) = True"
| "is_call Call_create_sample_patient_data = True"
| "is_call _ = False"

fun is_error_notice :: "effect \<Rightarrow> bool" where
  "is_error_notice (St_error _) = True"
| "is_error_notice (St_info _) = True"
| "is_error_notice _ = False"


fun is_upload_notice :: "effect \<Rightarrow> bool" where
  "is_upload_notice (St_success _) = True"
| "is_upload_notice _ = False"


section \<open>Stand-ins for the external module, used in examples\<close>

definition repr_unused :: "pyval \<Rightarrow> string" where
  "repr_unused v = []"

definition default_widgets :: predictor_widgets where
  "default_widgets =
     \<lparr> age_input = 45, bmi_input = 25, glucose_input = 100, bp_input = 120,
       insulin_input = 80, family_history_select = ''No'', activity_slider = 3,
       diet_slider = 3, stress_slider = 3, predict_button = True \<rparr>"

definition default_patient :: patient_data where
  "default_patient =
     \<lparr> age = 45, bmi = 25, glucose_level = 100, blood_pressure = 120, insulin_level = 80,
       family_history = 0, physical_activity = 3, diet_score = 3, stress_level = 3 \<rparr>"

definition stub_result :: "pyval option \<Rightarrow> pydict" where
  "stub_result recs =
     (\<lambda>k. if k = ''prediction'' then Some (PyStr ''Non-diabetic'')
          else if k = ''confidence'' then Some (PyFloat (84 / 100))
          else if k = ''risk_score'' then Some (PyFloat (3 / 10))
          else if k = ''recommendations'' then recs
          else None)"

definition stub_predictor :: "pyval option \<Rightarrow> patient_data \<Rightarrow> py_exn + pydict" where
  "stub_predictor recs pd = Inr (stub_result recs)"

definition failing_predictor :: "patient_data \<Rightarrow> py_exn + pydict" where
  "failing_predictor pd = Inl (Exception ''model file not found'')"

section \<open>Facts about the text functions\<close>





section \<open>Percentages in the result card\<close>


section \<open>Facts about the prediction block\<close>

lemma str_int_Suc: "str_int (1 + int k) = str_nat (Suc k)"
  by (simp add: str_int_def nat_add_distrib)

lemma write_recommendations_strs:
  "write_recommendations repr i (map PyStr recs) =
     map (\<lambda>k. St_write (str_int (i + int k) @ ''. '' @ recs ! k)) [0..<length recs]"
proof (induction recs arbitrary: i)
  case Nil
  then show ?case by simp
next
  case (Cons a recs)
  have "map (\<lambda>k. St_write (str_int (i + int k) @ ''. '' @ (a # recs) ! k)) [0..<length (a # recs)]
      = St_write (str_int i @ ''. '' @ a)
        # map (\<lambda>k. St_write (str_int (i + 1 + int k) @ ''. '' @ recs ! k)) [0..<length recs]"
    by (simp add: map_upt_Suc add.assoc del: upt_Suc)
  with Cons.IH [of "i + 1"] show ?case
    by (simp add: py_str_def)
qed

lemma writes_of_map_St_write: "[l. St_write l \<leftarrow> map (\<lambda>k. St_write (f k)) ks] = map f ks"
  by (induction ks) simp_all

lemma predict_and_display_complete:
  assumes "predict_diabetes pd = Inr result"
    and "result ''prediction'' = Some p"
    and "result ''confidence'' = Some c"
    and "result ''risk_score'' = Some r"
    and "risk_level r = Inr (rc, rl)"
    and "py_format_percent1 c = Inr ct"
    and "py_format_percent1 r = Inr rt"
    and "py_iter (py_get result ''recommendations'' (PyList [])) = Inr recs"
  shows "predict_and_display repr predict_diabetes pd =
           ([Call_predict_diabetes pd,
             St_markdown (prediction_card rc (py_str repr p) rl ct rt),
             St_subheader recommendations_heading] @ write_recommendations repr 1 recs, None)"
  using assms by (simp add: predict_and_display_def py_getitem_def)

lemma predict_and_display_cases:
  "(\<exists>e. predict_and_display repr predict_diabetes pd = ([Call_predict_diabetes pd], Some e))
   \<or> (\<exists>rc p rl ct rt recs.
         predict_and_display repr predict_diabetes pd =
           ([Call_predict_diabetes pd, St_markdown (prediction_card rc p rl ct rt),
             St_subheader recommendations_heading] @ write_recommendations repr 1 recs, None))
   \<or> (\<exists>rc p rl ct rt result e.
         predict_diabetes pd = Inr result
         \<and> py_iter (py_get result ''recommendations'' (PyList [])) = Inl e
         \<and> predict_and_display repr predict_diabetes pd =
           ([Call_predict_diabetes pd, St_markdown (prediction_card rc p rl ct rt),
             St_subheader recommendations_heading], Some e))"
  unfolding predict_and_display_def Let_def
  by (auto split: sum.splits prod.splits) blast+

lemma predict_clicked_failure:
  assumes "predict_diabetes pd = Inl e"
  shows "predict_clicked repr predict_diabetes pd =
           [St_spinner ''Analyzing patient data...'', Call_predict_diabetes pd,
            St_error (''Error making prediction: '' @ str_exn e), St_info install_hint]"
  using assms by (simp add: predict_clicked_def predict_and_display_def)

lemma calls_of_write_recommendations:
  "[d. Call_predict_diabetes d \<leftarrow> write_recommendations repr i recs] = []"
  by (induction recs arbitrary: i) simp_all


lemma calls_of_predict_clicked:
  "[d. Call_predict_diabetes d \<leftarrow> predict_clicked repr predict_diabetes pd] = [pd]"
  using predict_and_display_cases [of repr predict_diabetes pd]
  by (auto simp: predict_clicked_def calls_of_write_recommendations)

lemma risk_level_float:
  "risk_level (PyFloat r) =
     Inr (if 7 / 10 \<le> r then (''risk-high'', ''High Risk'')
          else if 4 / 10 \<le> r then (''risk-medium'', ''Medium Risk'')
          else (''risk-low'', ''Low Risk''))"
  by (simp add: risk_level_def py_ge_def)


section \<open>Risk tiers\<close>






section \<open>Numbered recommendations\<close>

text \<open>
  Claim C2.  When the Predictor returns a list of strings as recommendations, the lines
  written after the result card are the strings in their order, none dropped or merged,
  the line at position k (counted from 0) being the number k + 1, a point, a space and
  the string.
\<close>

theorem recommendations_numbered_in_order:
  assumes "predict_diabetes pd = Inr result"
    and "result ''prediction'' = Some p"
    and "result ''confidence'' = Some (PyFloat c)"
    and "result ''risk_score'' = Some (PyFloat r)"
    and "result ''recommendations'' = Some (PyList (map PyStr recs))"
  shows "[line. St_write line \<leftarrow> predict_clicked repr predict_diabetes pd] =
           map (\<lambda>k. str_nat (Suc k) @ ''. '' @ recs ! k) [0..<length recs]"
proof -
  obtain rc rl where tier: "risk_level (PyFloat r) = Inr (rc, rl)"
    unfolding risk_level_float by (metis surj_pair)
  have iter: "py_iter (py_get result ''recommendations'' (PyList [])) = Inr (map PyStr recs)"
    using assms(5) by (simp add: py_get_def py_iter_def)
  have fc: "py_format_percent1 (PyFloat c) = Inr (format_percent1 c)"
    and fr: "py_format_percent1 (PyFloat r) = Inr (format_percent1 r)"
    by (simp_all add: py_format_percent1_def)
  have "predict_and_display repr predict_diabetes pd =
      ([Call_predict_diabetes pd,
        St_markdown (prediction_card rc (py_str repr p) rl (format_percent1 c) (format_percent1 r)),
        St_subheader recommendations_heading]
       @ write_recommendations repr 1 (map PyStr recs), None)"
    by (rule predict_and_display_complete) (fact assms(1-4) tier fc fr iter)+
  then have "predict_clicked repr predict_diabetes pd =
      [St_spinner ''Analyzing patient data...'', Call_predict_diabetes pd,
       St_markdown (prediction_card rc (py_str repr p) rl (format_percent1 c) (format_percent1 r)),
       St_subheader recommendations_heading]
      @ map (\<lambda>k. St_write (str_nat (Suc k) @ ''. '' @ recs ! k)) [0..<length recs]"
    by (simp add: predict_clicked_def write_recommendations_strs str_int_Suc)
  then have "[line. St_write line \<leftarrow> predict_clicked repr predict_diabetes pd] =
      [line. St_write line \<leftarrow>
         map (\<lambda>k. St_write (str_nat (Suc k) @ ''. '' @ recs ! k)) [0..<length recs]]"
    by simp
  also have "\<dots> = map (\<lambda>k. str_nat (Suc k) @ ''. '' @ recs ! k) [0..<length recs]"
    by (rule writes_of_map_St_write)
  finally show ?thesis .
qed

theorem recommendations_numbered_in_order_witness:
  "[line. St_write line \<leftarrow>
      predict_clicked repr_unused
        (stub_predictor (Some (PyList (map PyStr [''A'', ''B''])))) default_patient]
   = [''1. A'', ''2. B'']"
proof -
  have "[line. St_write line \<leftarrow>
      predict_clicked repr_unused
        (stub_predictor (Some (PyList (map PyStr [''A'', ''B''])))) default_patient]
     = map (\<lambda>k. str_nat (Suc k) @ ''. '' @ [''A'', ''B''] ! k) [0..<length [''A'', ''B'']]"
    by (rule recommendations_numbered_in_order [where result = "stub_result (Some (PyList (map PyStr [''A'', ''B''])))"
            and c = "84 / 100" and r = "3 / 10"])
       (simp_all add: stub_predictor_def stub_result_def)
  also have "\<dots> = [''1. A'', ''2. B'']"
    by (simp add: upt_rec str_nat.simps digit_char_def)
  finally show ?thesis .
qed

section \<open>Failure of the Predictor\<close>

text \<open>
  Claim C4.  When the button is pressed and the call of the Predictor raises, the page shows
  one error message, which carries the text of the exception, and the hint about installing
  the dependencies.  The Predictor has been called exactly once, and neither the result
  card nor a recommendation line is shown.
\<close>

theorem predictor_failure_reported_once:
  assumes "predict_button w"
    and "predict_diabetes (prepare_patient_data w) = Inl e"
  shows "render_diabetes_predictor repr predict_diabetes w =
           [St_header ([CHR 0xF0, CHR 0x9F, CHR 0xA9, CHR 0xBA] @ '' Diabetes Risk Prediction''),
            St_subheader ''Patient Information'',
            St_subheader ''Lifestyle Factors'',
            St_spinner ''Analyzing patient data...'',
            Call_predict_diabetes (prepare_patient_data w),
            St_error (''Error making prediction: '' @ str_exn e),
            St_info ''Make sure all dependencies are installed: pip install -r requirements.txt'']
         \<and> length (filter is_call (render_diabetes_predictor repr predict_diabetes w)) = 1
         \<and> length (filter is_error_notice (render_diabetes_predictor repr predict_diabetes w)) = 2
         \<and> [m. St_markdown m \<leftarrow> render_diabetes_predictor repr predict_diabetes w] = []
         \<and> [l. St_write l \<leftarrow> render_diabetes_predictor repr predict_diabetes w] = []"
  using assms
  by (simp add: render_diabetes_predictor_def predict_clicked_failure install_hint_def)

theorem predictor_failure_reported_once_witness:
  "render_diabetes_predictor repr_unused failing_predictor default_widgets =
     [St_header ([CHR 0xF0, CHR 0x9F, CHR 0xA9, CHR 0xBA] @ '' Diabetes Risk Prediction''),
      St_subheader ''Patient Information'',
      St_subheader ''Lifestyle Factors'',
      St_spinner ''Analyzing patient data...'',
      Call_predict_diabetes default_patient,
      St_error ''Error making prediction: model file not found'',
      St_info ''Make sure all dependencies are installed: pip install -r requirements.txt'']"
proof -
  have b: "predict_button default_widgets"
    by (simp add: default_widgets_def)
  have f: "failing_predictor (prepare_patient_data default_widgets)
             = Inl (Exception ''model file not found'')"
    by (simp add: failing_predictor_def)
  have p: "prepare_patient_data default_widgets = default_patient"
    by (simp add: prepare_patient_data_def default_widgets_def default_patient_def)
  from b f
    predictor_failure_reported_once [where w = default_widgets
      and predict_diabetes = failing_predictor and repr = repr_unused
      and e = "Exception ''model file not found''"]
  show ?thesis
    by (simp add: p)
qed

section \<open>Result card and error notice\<close>




section \<open>Missing recommendations\<close>

text \<open>
  Claim C9.  When the result of the Predictor has no recommendations field and its other
  fields are as the data model has them, the recommendations default to the empty list: the
  block under the button shows the result card and the heading, no numbered line, and no
  error notice.
\<close>

theorem missing_recommendations_default_empty:
  assumes "predict_diabetes pd = Inr result"
    and "result ''recommendations'' = None"
    and "result ''prediction'' = Some p"
    and "result ''confidence'' = Some (PyFloat c)"
    and "result ''risk_score'' = Some (PyFloat r)"
  shows "py_get result ''recommendations'' (PyList []) = PyList []
         \<and> (\<exists>rc rl. risk_level (PyFloat r) = Inr (rc, rl)
               \<and> predict_clicked repr predict_diabetes pd =
                   [St_spinner ''Analyzing patient data...'', Call_predict_diabetes pd,
                    St_markdown (prediction_card rc (py_str repr p) rl
                                   (format_percent1 c) (format_percent1 r)),
                    St_subheader recommendations_heading])
         \<and> [line. St_write line \<leftarrow> predict_clicked repr predict_diabetes pd] = []
         \<and> filter is_error_notice (predict_clicked repr predict_diabetes pd) = []"
proof -
  obtain rc rl where tier: "risk_level (PyFloat r) = Inr (rc, rl)"
    unfolding risk_level_float by (metis surj_pair)
  have dflt: "py_get result ''recommendations'' (PyList []) = PyList []"
    using assms(2) by (simp add: py_get_def)
  then have iter: "py_iter (py_get result ''recommendations'' (PyList [])) = Inr []"
    by (simp add: py_iter_def)
  have fc: "py_format_percent1 (PyFloat c) = Inr (format_percent1 c)"
    and fr: "py_format_percent1 (PyFloat r) = Inr (format_percent1 r)"
    by (simp_all add: py_format_percent1_def)
  have "predict_and_display repr predict_diabetes pd =
      ([Call_predict_diabetes pd,
        St_markdown (prediction_card rc (py_str repr p) rl (format_percent1 c) (format_percent1 r)),
        St_subheader recommendations_heading]
       @ write_recommendations repr 1 [], None)"
    by (rule predict_and_display_complete) (fact assms(1,3-5) tier fc fr iter)+
  then have out: "predict_clicked repr predict_diabetes pd =
      [St_spinner ''Analyzing patient data...'', Call_predict_diabetes pd,
       St_markdown (prediction_card rc (py_str repr p) rl (format_percent1 c) (format_percent1 r)),
       St_subheader recommendations_heading]"
    by (simp add: predict_clicked_def)
  from out have "[line. St_write line \<leftarrow> predict_clicked repr predict_diabetes pd] = []"
    and "filter is_error_notice (predict_clicked repr predict_diabetes pd) = []"
    by simp_all
  with dflt tier out show ?thesis by blast
qed

theorem missing_recommendations_default_empty_witness:
  "predict_clicked repr_unused (stub_predictor None) default_patient =
     [St_spinner ''Analyzing patient data...'', Call_predict_diabetes default_patient,
      St_markdown (prediction_card ''risk-low'' ''Non-diabetic'' ''Low Risk'' ''84.0%'' ''30.0%''),
      St_subheader recommendations_heading]"
proof -
  have "\<exists>rc rl. risk_level (PyFloat (3 / 10)) = Inr (rc, rl)
          \<and> predict_clicked repr_unused (stub_predictor None) default_patient =
              [St_spinner ''Analyzing patient data...'', Call_predict_diabetes default_patient,
               St_markdown (prediction_card rc (py_str repr_unused (PyStr ''Non-diabetic'')) rl
                              (format_percent1 (84 / 100)) (format_percent1 (3 / 10))),
               St_subheader recommendations_heading]"
    using missing_recommendations_default_empty [where predict_diabetes = "stub_predictor None"
        and pd = default_patient and result = "stub_result None" and p = "PyStr ''Non-diabetic''"
        and c = "84 / 100" and r = "3 / 10" and repr = repr_unused]
    by (simp add: stub_predictor_def stub_result_def)
  then show ?thesis
    by (auto simp: risk_level_float format_percent1_def round_half_even_def str_nat.simps
        digit_char_def py_str_def)
qed

section \<open>Family history flag\<close>

text \<open>
  Claim C10.  In the patient record built from the widgets, the family history is 1 when
  the selection is Yes and 0 otherwise, so it is 0 or 1 whatever the widgets hold; and the
  records passed to the Predictor are that record, once when the button is pressed and
  none otherwise.
\<close>

theorem family_history_flag:
  "family_history (prepare_patient_data w) = (if family_history_select w = ''Yes'' then 1 else 0)
   \<and> family_history (prepare_patient_data w) \<in> {0, 1}
   \<and> [d. Call_predict_diabetes d \<leftarrow> render_diabetes_predictor repr predict_diabetes w] =
       (if predict_button w then [prepare_patient_data w] else [])"
  by (simp add: render_diabetes_predictor_def calls_of_predict_clicked)
     (simp add: prepare_patient_data_def)

section \<open>Document analysis\<close>

text \<open>
  Claim C7.  With any uploaded file and the analysis requested, the page shows the upload
  notice, which carries the name of the file, and then the fixed analysis summary.  Name
  and content of the file appear nowhere else: for any two files the page apart from the
  upload notice is the same, and the summary shown is the same fixed text.
\<close>

theorem analysis_summary_independent_of_file:
  "render_document_analyzer \<lparr>file_uploader = Some f1, analyze_button = True\<rparr> =
     [St_header ([CHR 0xF0, CHR 0x9F, CHR 0x93, CHR 0x84] @ '' Medical Document Analysis''),
      St_info ([CHR 0xF0, CHR 0x9F, CHR 0x93, CHR 0x9D]
        @ '' Note: Document analysis feature requires OpenAI API key. This is a placeholder interface.''),
      St_success (''File '' @ [CHR 0x27] @ name f1 @ [CHR 0x27] @ '' uploaded successfully!''),
      St_spinner ''Analyzing document...'',
      St_markdown analysis_summary]
   \<and> [m. St_markdown m \<leftarrow> render_document_analyzer \<lparr>file_uploader = Some f1, analyze_button = b\<rparr>]
       = [m. St_markdown m \<leftarrow> render_document_analyzer \<lparr>file_uploader = Some f2, analyze_button = b\<rparr>]
   \<and> filter (\<lambda>e. \<not> is_upload_notice e)
         (render_document_analyzer \<lparr>file_uploader = Some f1, analyze_button = b\<rparr>)
       = filter (\<lambda>e. \<not> is_upload_notice e)
           (render_document_analyzer \<lparr>file_uploader = Some f2, analyze_button = b\<rparr>)"
  by (simp add: render_document_analyzer_def)

section \<open>Sample data\<close>

text \<open>
  Claim C8.  When the sample button is pressed and the sample generator raises, whatever the
  exception, the sidebar shows the notice that sample data is not available, shows no
  sample record, and the function returns the selected page as usual.
\<close>

theorem sample_failure_notice_only:
  assumes "sample_button w"
  shows "render_sidebar (Inl e) w =
           ([St_header ([CHR 0xF0, CHR 0x9F, CHR 0x8E, CHR 0x9B, CHR 0xEF, CHR 0xB8, CHR 0x8F]
                          @ '' Navigation''),
             St_markdown ''---'',
             St_header ([CHR 0xF0, CHR 0x9F, CHR 0x93, CHR 0x8A] @ '' Quick Stats''),
             St_metric ''Model Accuracy'' ''84%'',
             St_metric ''Features Used'' ''9'',
             St_metric ''Training Data'' ''1,000 records'',
             St_markdown ''---'',
             Call_create_sample_patient_data,
             St_error ''Sample data not available''],
            page_radio w)
         \<and> [d. St_json d \<leftarrow> fst (render_sidebar (Inl e) w)] = []
         \<and> [m. St_error m \<leftarrow> fst (render_sidebar (Inl e) w)] = [''Sample data not available'']"
  using assms by (simp add: render_sidebar_def)

theorem sample_failure_notice_only_witness:
  "[m. St_error m \<leftarrow>
      fst (render_sidebar (Inl (Exception ''name 'create_sample_patient_data' is not defined''))
             \<lparr>page_radio = ''About'', sample_button = True\<rparr>)]
   = [''Sample data not available'']
   \<and> snd (render_sidebar (Inl (Exception ''name 'create_sample_patient_data' is not defined''))
             \<lparr>page_radio = ''About'', sample_button = True\<rparr>) = ''About''"
  using sample_failure_notice_only [of "\<lparr>page_radio = ''About'', sample_button = True\<rparr>"
      "Exception ''name 'create_sample_patient_data' is not defined''"]
  by simp

end
